theory Spec2Isabelle
  imports Main
begin

section \<open>JavaScript values\<close>

text \<open>
  The registration body is the result of \<open>JSON.parse\<close> and is typed \<open>any\<close> in the
  source; the code inspects it with truthiness tests, \<open>typeof\<close> and property reads.
  \<open>jsval\<close> is the type of such values, with \<open>Undefined\<close> for what a property read
  returns when the property is missing. An object is the list of its own properties in
  the order \<open>Object.entries\<close> enumerates them (an object built by \<open>JSON.parse\<close> has
  distinct keys). Numbers are integers: pixel sizes and byte counts.
\<close>

datatype jsval =
    Undefined
  | Null
  | Bool bool
  | Num int
  | Str string
  | Arr "jsval list"
  | Obj "(string \<times> jsval) list"

text \<open>Truthiness, as \<open>if (x)\<close>, \<open>!x\<close>, \<open>x && y\<close> and \<open>x || y\<close> test it.\<close>

fun truthy :: "jsval \<Rightarrow> bool" where
  "truthy Undefined = False"
| "truthy Null = False"
| "truthy (Bool b) = b"
| "truthy (Num n) = (n \<noteq> 0)"
| "truthy (Str s) = (s \<noteq> [])"
| "truthy (Arr xs) = True"
| "truthy (Obj kvs) = True"

definition js_or :: "jsval \<Rightarrow> jsval \<Rightarrow> jsval" where
  "js_or a b = (if truthy a then a else b)"

definition js_and :: "jsval \<Rightarrow> jsval \<Rightarrow> jsval" where
  "js_and a b = (if truthy a then b else a)"

text \<open>
  \<open>js_prop v k\<close> is the property read \<open>v.k\<close> for a value \<open>v\<close> that is neither \<open>null\<close> nor
  \<open>undefined\<close> (on those the read throws; every caller below tests for them first) and
  for the property names this program reads, none of which a string, number, boolean or
  array has: the read is \<open>undefined\<close> on everything but an object with that own
  property.
\<close>

fun js_prop :: "jsval \<Rightarrow> string \<Rightarrow> jsval" where
  "js_prop (Obj kvs) k = (case map_of kvs k of None \<Rightarrow> Undefined | Some v \<Rightarrow> v)"
| "js_prop v k = Undefined"

text \<open>\<open>typeof v === 'number'\<close>\<close>

fun is_number :: "jsval \<Rightarrow> bool" where
  "is_number (Num n) = True"
| "is_number v = False"

text \<open>The exception a handler's \<open>try\<close> block can catch in the code modelled here.\<close>

datatype exn = TypeError

section \<open>types.ts and constants.ts\<close>

text \<open>
  The registration handler reads ten fields of the body and copies them into the
  metadata it stores; \<open>AssetMetadata\<close> has two more, \<open>storage_type\<close> and \<open>updated_at\<close>.
  Fields that the code only tests for truthiness or passes on are arbitrary values.
  \<open>original_width\<close> and \<open>original_height\<close> (compared with a number), \<open>default_variant\<close>
  (used as a property name) and \<open>variants\<close> (enumerated with \<open>Object.entries\<close>) have
  the shape that \<open>AssetMetadata\<close> declares: a number, a string, an object, or absent
  (\<open>None\<close>). The entries of \<open>variants\<close> are arbitrary values under arbitrary keys,
  which is what validation has to judge.
\<close>

record RegistrationBody =
  url :: jsval
  r2_key :: jsval
  content_type :: jsval
  size_bytes :: jsval
  is_image :: jsval
  original_width :: "int option"
  original_height :: "int option"
  variants :: "(string \<times> jsval) list option"
  default_variant :: "string option"
  created_at :: jsval

record AssetMetadata = RegistrationBody +
  storage_type :: string
  updated_at :: string

text \<open>Truthiness of an optional number and of an optional string.\<close>

fun truthy_num :: "int option \<Rightarrow> bool" where
  "truthy_num None = False"
| "truthy_num (Some n) = (n \<noteq> 0)"

fun truthy_str :: "string option \<Rightarrow> bool" where
  "truthy_str None = False"
| "truthy_str (Some s) = (s \<noteq> [])"

definition VARIANT_SIZES_medium :: int where
  "VARIANT_SIZES_medium = 1288"

definition VARIANT_NAMES :: "string list" where
  "VARIANT_NAMES = [''thumb'', ''medium'', ''large'', ''original'']"

definition DEFAULT_CONTENT_TYPE :: string where
  "DEFAULT_CONTENT_TYPE = ''application/octet-stream''"

definition CACHE_CONTROL :: string where
  "CACHE_CONTROL = ''public, max-age=31536000, immutable''"

section \<open>utils/variants.ts\<close>

definition isValidVariantName :: "string \<Rightarrow> bool" where
  "isValidVariantName name = (name \<in> set VARIANT_NAMES)"

text \<open>\<open>metadata.variants[name]\<close>, for the object \<open>vs\<close> that \<open>metadata.variants\<close> holds.\<close>

definition entry :: "(string \<times> jsval) list \<Rightarrow> string \<Rightarrow> jsval" where
  "entry vs name = js_prop (Obj vs) name"

definition calculateDefaultVariant :: "AssetMetadata \<Rightarrow> string" where
  "calculateDefaultVariant metadata =
     (if truthy_str (default_variant metadata) then the (default_variant metadata)
      else case variants metadata of
        None \<Rightarrow> ''original''
      | Some vs \<Rightarrow>
          if truthy (entry vs ''medium'') then ''medium''
          else if truthy (entry vs ''original'') \<and> truthy_num (original_width metadata)
                  \<and> the (original_width metadata) \<le> VARIANT_SIZES_medium then ''original''
          else if truthy (entry vs ''large'') then ''large''
          else if truthy (entry vs ''original'') then ''original''
          else if truthy (entry vs ''thumb'') then ''thumb''
          else ''original'')"

text \<open>
  \<open>fallbackChains[requestedVariant]\<close>: the chain of a recognized name; for any other
  string the read gives \<open>undefined\<close> or something inherited from \<open>Object.prototype\<close>,
  none of it iterable (\<open>None\<close>).
\<close>

definition fallbackChains :: "string \<Rightarrow> string list option" where
  "fallbackChains = map_of
     [(''thumb'', [''thumb'', ''medium'', ''original'']),
      (''medium'', [''medium'', ''original'']),
      (''large'', [''large'', ''medium'', ''original'']),
      (''original'', [''original''])]"

text \<open>The \<open>for ... of\<close> loop over the chain, returning at the first truthy entry.\<close>

fun walk_chain :: "(string \<times> jsval) list \<Rightarrow> string list \<Rightarrow> (jsval \<times> string) option" where
  "walk_chain vs [] = None"
| "walk_chain vs (variantName # rest) =
     (let variant = entry vs variantName
      in if truthy variant then Some (variant, variantName) else walk_chain vs rest)"

text \<open>
  The result is \<open>null\<close> (\<open>Inr None\<close>) or the pair of \<open>variant\<close> and \<open>actualVariant\<close>;
  iterating a chain that is not iterable throws.
\<close>

definition getVariantToServe ::
  "AssetMetadata \<Rightarrow> string \<Rightarrow> exn + (jsval \<times> string) option" where
  "getVariantToServe metadata requestedVariant =
     (case variants metadata of
        None \<Rightarrow> Inr None
      | Some vs \<Rightarrow>
          (case fallbackChains requestedVariant of
             None \<Rightarrow> Inl TypeError
           | Some chain \<Rightarrow> Inr (walk_chain vs chain)))"

datatype storage_kind = R2 | URL

definition getVariantStorage :: "jsval \<Rightarrow> (storage_kind \<times> jsval) option" where
  "getVariantStorage variant =
     (if truthy (js_prop variant ''r2_key'') then Some (R2, js_prop variant ''r2_key'')
      else if truthy (js_prop variant ''url'') then Some (URL, js_prop variant ''url'')
      else None)"

definition hasVariants :: "AssetMetadata \<Rightarrow> bool" where
  "hasVariants metadata =
     (truthy (is_image metadata) \<and>
      (case variants metadata of None \<Rightarrow> False | Some vs \<Rightarrow> length (map fst vs) > 0))"

section \<open>utils/validation.ts\<close>

text \<open>
  \<open>validateVariant\<close> returns the value of \<open>hasStorage && hasMetadata\<close>; reading a
  property of \<open>null\<close> throws.
\<close>

definition validateVariant :: "jsval \<Rightarrow> exn + jsval" where
  "validateVariant variant =
     (if variant = Null \<or> variant = Undefined then Inl TypeError
      else
        let hasStorage = js_or (js_prop variant ''r2_key'') (js_prop variant ''url'');
            hasMetadata =
              (is_number (js_prop variant ''width'') \<and>
               is_number (js_prop variant ''height'') \<and>
               is_number (js_prop variant ''size_bytes''))
        in Inr (js_and hasStorage (Bool hasMetadata)))"

record Validation =
  valid :: bool
  error :: "string option"

definition invalid_variant_message :: "string \<Rightarrow> string" where
  "invalid_variant_message variantName =
     ''Invalid variant '' @ [CHR 0x27] @ variantName @ [CHR 0x27] @
     '': must have (r2_key or url) and (width, height, size_bytes)''"

text \<open>
  The loop over \<open>Object.entries(body.variants)\<close>: \<open>Inr (Some r)\<close> is the \<open>return r\<close>
  inside the loop, \<open>Inr None\<close> is the loop running to its end.
\<close>

fun validate_entries :: "(string \<times> jsval) list \<Rightarrow> exn + Validation option" where
  "validate_entries [] = Inr None"
| "validate_entries ((variantName, variant) # rest) =
     (case validateVariant variant of
        Inl e \<Rightarrow> Inl e
      | Inr r \<Rightarrow>
          if \<not> truthy r
          then Inr (Some \<lparr>valid = False, error = Some (invalid_variant_message variantName)\<rparr>)
          else validate_entries rest)"

definition validateRegistrationBody :: "RegistrationBody \<Rightarrow> exn + Validation" where
  "validateRegistrationBody body =
     (if \<not> truthy (is_image body) then
        (if \<not> truthy (url body) \<and> \<not> truthy (r2_key body)
         then Inr \<lparr>valid = False, error = Some ''Either url or r2_key is required''\<rparr>
         else if truthy (url body) \<and> truthy (r2_key body)
         then Inr \<lparr>valid = False,
                   error = Some ''Cannot specify both url and r2_key for non-image assets''\<rparr>
         else Inr \<lparr>valid = True, error = None\<rparr>)
      else
        (case variants body of
           Some vs \<Rightarrow>
             (case validate_entries vs of
                Inl e \<Rightarrow> Inl e
              | Inr (Some r) \<Rightarrow> Inr r
              | Inr None \<Rightarrow>
                  if length (map fst vs) = 0
                  then Inr \<lparr>valid = False,
                            error = Some ''Image assets with variants must have at least one variant''\<rparr>
                  else Inr \<lparr>valid = True, error = None\<rparr>)
         | None \<Rightarrow>
             if \<not> truthy (url body) \<and> \<not> truthy (r2_key body)
             then Inr \<lparr>valid = False,
                       error = Some ''Either url, r2_key, or variants is required''\<rparr>
             else Inr \<lparr>valid = True, error = None\<rparr>))"

section \<open>The stores and the responses\<close>

text \<open>
  \<open>ASSET_MAP\<close> is the key-value store of metadata. The code stores
  \<open>JSON.stringify(metadata)\<close> and reads it back with \<open>JSON.parse\<close>, which gives the
  same fields again (absent fields stay absent), so the model keeps the record itself.
  \<open>ARKE_ARCHIVE\<close> is the bucket and \<open>fetch\<close> the HTTP client; both are given whatever
  value the metadata holds as key or URL, and each of them answers: a store that throws
  is not modelled. A stream is the text it delivers.

  Header values are taken to be well formed. \<open>new Response(body, { headers })\<close> throws
  on a header value that holds a line break or a NUL character (the asset id and the
  content type are the values a caller can choose), and the \<open>catch\<close> block of
  \<open>handleRetrieval\<close> answers that with the 500 "Internal server error"; this path is
  not modelled, so \<open>serve_variant\<close> and \<open>serve_original\<close> below describe the code for
  header values without such characters.
\<close>

record R2Object =
  r2_body :: string
  r2_contentType :: jsval
  r2_size :: int

record FetchResponse =
  ok :: bool
  res_body :: string
  res_contentType :: jsval

record Env =
  ASSET_MAP :: "string \<Rightarrow> AssetMetadata option"
  ARKE_ARCHIVE :: "jsval \<Rightarrow> R2Object option"

text \<open>
  The headers that \<open>buildAssetHeaders\<close> sets, one field each, \<open>None\<close> when the header
  is not set. Numbers are kept as numbers: their rendering as text is not modelled.
\<close>

record Headers =
  Content_Type :: jsval
  Cache_Control :: string
  X_Asset_Id :: string
  Content_Length :: "jsval option"
  X_Variant :: "string option"
  X_Variant_Dimensions :: "(jsval \<times> jsval) option"
  X_Original_Dimensions :: "(int \<times> int) option"

text \<open>
  \<open>JsonResponse status payload\<close> is \<open>c.json(payload, status)\<close>; the \<open>message\<close> field
  of the two 500 responses of the \<open>catch\<close> blocks, the engine's text of the exception,
  is left out. \<open>StreamResponse body headers\<close> is \<open>new Response(body, { headers })\<close>.
\<close>

datatype response =
    JsonResponse nat "(string \<times> jsval) list"
  | StreamResponse string Headers

section \<open>utils/response.ts\<close>

definition asset_url :: "string \<Rightarrow> string" where
  "asset_url assetId = ''https://cdn.arke.institute/asset/'' @ assetId"

text \<open>
  The loop assigns \<open>urls[variant]\<close> for each name. For the name \<open>__proto__\<close> the
  assignment runs the setter of \<open>Object.prototype\<close>, which ignores a string, so no
  property is added.
\<close>

definition buildVariantUrls :: "string \<Rightarrow> string list \<Rightarrow> (string \<times> jsval) list" where
  "buildVariantUrls assetId availableVariants =
     map (\<lambda>variant. (variant, Str (asset_url assetId @ ''/'' @ variant)))
       (filter (\<lambda>variant. variant \<noteq> ''__proto__'') availableVariants)"

definition buildAssetHeaders ::
  "jsval \<Rightarrow> jsval \<Rightarrow> string \<Rightarrow> string option \<Rightarrow> (jsval \<times> jsval) option \<Rightarrow>
   (int \<times> int) option \<Rightarrow> Headers" where
  "buildAssetHeaders contentType contentLength assetId actualVariant variantDimensions
     originalDimensions =
     \<lparr>Content_Type = contentType,
      Cache_Control = CACHE_CONTROL,
      X_Asset_Id = assetId,
      Content_Length = (if truthy contentLength then Some contentLength else None),
      X_Variant = (if truthy_str actualVariant then actualVariant else None),
      X_Variant_Dimensions = variantDimensions,
      X_Original_Dimensions = originalDimensions\<rparr>"

section \<open>handlers/registration.ts\<close>

text \<open>The object literal that \<open>handleRegistration\<close> builds; \<open>now\<close> is the clock's reading.\<close>

definition build_metadata :: "RegistrationBody \<Rightarrow> string \<Rightarrow> AssetMetadata" where
  "build_metadata body now =
     \<lparr>url = url body,
      r2_key = r2_key body,
      content_type = content_type body,
      size_bytes = size_bytes body,
      is_image = js_or (is_image body) (Bool False),
      original_width = original_width body,
      original_height = original_height body,
      variants = variants body,
      default_variant = default_variant body,
      created_at = js_or (created_at body) (Str now),
      storage_type = (if truthy (url body) then ''url'' else ''r2''),
      updated_at = now\<rparr>"

text \<open>The step "auto-calculate default variant if not provided and has variants".\<close>

definition with_default :: "AssetMetadata \<Rightarrow> AssetMetadata" where
  "with_default metadata =
     (if hasVariants metadata \<and> \<not> truthy_str (default_variant metadata)
      then metadata\<lparr>default_variant := Some (calculateDefaultVariant metadata)\<rparr>
      else metadata)"

text \<open>
  \<open>handleRegistration\<close> returns its response and the stores as it leaves them. The body
  is the parsed JSON of the request.
\<close>

definition handleRegistration ::
  "Env \<Rightarrow> string \<Rightarrow> RegistrationBody \<Rightarrow> string \<Rightarrow> response \<times> Env" where
  "handleRegistration env assetId body now =
     (case validateRegistrationBody body of
        Inl e \<Rightarrow> (JsonResponse 500 [(''error'', Str ''Registration failed'')], env)
      | Inr validation \<Rightarrow>
          if \<not> valid validation
          then (JsonResponse 400
                  [(''error'', case error validation of None \<Rightarrow> Undefined | Some msg \<Rightarrow> Str msg)],
                env)
          else
            let metadata = with_default (build_metadata body now);
                env' = env\<lparr>ASSET_MAP := (ASSET_MAP env)(assetId \<mapsto> metadata)\<rparr>;
                response =
                  [(''success'', Bool True),
                   (''assetId'', Str assetId),
                   (''cdnUrl'', Str (asset_url assetId)),
                   (''storage_type'', Str (storage_type metadata))] @
                  (if hasVariants metadata
                   then
                     [(''defaultUrl'',
                       Str (asset_url assetId @ ''/'' @
                            (case default_variant metadata of
                               None \<Rightarrow> ''undefined'' | Some d \<Rightarrow> d))),
                      (''variants'',
                       Obj (buildVariantUrls assetId
                              (case variants metadata of None \<Rightarrow> [] | Some vs \<Rightarrow> map fst vs)))]
                   else
                     [(''sourceUrl'', url body),
                      (''r2_key'', r2_key body)])
            in (JsonResponse 201 response, env'))"

section \<open>handlers/retrieval.ts\<close>

text \<open>\<open>s.split(c)\<close> for a one-character separator: the pieces between the separators.\<close>

fun js_split :: "char \<Rightarrow> string \<Rightarrow> string list" where
  "js_split c [] = [[]]"
| "js_split c (x # xs) =
     (if x = c then [] # js_split c xs
      else (case js_split c xs of
              [] \<Rightarrow> [[x]]
            | w # ws \<Rightarrow> (x # w) # ws))"

text \<open>\<open>trailingPath.split('/').filter(Boolean)[0] || ''\<close>\<close>

definition firstPart :: "string \<Rightarrow> string" where
  "firstPart trailingPath =
     (case filter (\<lambda>part. part \<noteq> []) (js_split CHR ''/'' trailingPath) of
        [] \<Rightarrow> []
      | part # parts \<Rightarrow> part)"

text \<open>
  The branch of \<open>handleRetrieval\<close> that serves the variant found, from \<open>getVariantStorage\<close>
  to the response.
\<close>

definition serve_variant ::
  "Env \<Rightarrow> (jsval \<Rightarrow> FetchResponse) \<Rightarrow> string \<Rightarrow> AssetMetadata \<Rightarrow> jsval \<Rightarrow> string \<Rightarrow> response"
  where
  "serve_variant env fetch assetId metadata variant actualVariant =
     (case getVariantStorage variant of
        None \<Rightarrow> JsonResponse 500 [(''error'', Str ''Invalid variant storage configuration'')]
      | Some (kind, location) \<Rightarrow>
          let headers = (\<lambda>contentType.
                buildAssetHeaders contentType (js_prop variant ''size_bytes'') assetId
                  (Some actualVariant)
                  (Some (js_prop variant ''width'', js_prop variant ''height''))
                  (if truthy_num (original_width metadata) \<and> truthy_num (original_height metadata)
                   then Some (the (original_width metadata), the (original_height metadata))
                   else None))
          in
          if kind = R2 then
            (case ARKE_ARCHIVE env location of
               None \<Rightarrow> JsonResponse 404 [(''error'', Str ''Variant not found in R2 storage'')]
             | Some r2Object \<Rightarrow>
                 StreamResponse (r2_body r2Object)
                   (headers (js_or (js_prop variant ''content_type'')
                              (js_or (content_type metadata)
                                (js_or (r2_contentType r2Object) (Str DEFAULT_CONTENT_TYPE))))))
          else
            (let response = fetch location
             in if \<not> ok response
                then JsonResponse 503 [(''error'', Str ''Failed to fetch variant from storage'')]
                else StreamResponse (res_body response)
                       (headers (js_or (js_prop variant ''content_type'')
                                  (js_or (content_type metadata)
                                    (js_or (res_contentType response)
                                      (Str DEFAULT_CONTENT_TYPE)))))))"

text \<open>The branch "serve original asset" of \<open>handleRetrieval\<close>.\<close>

definition serve_original ::
  "Env \<Rightarrow> (jsval \<Rightarrow> FetchResponse) \<Rightarrow> string \<Rightarrow> AssetMetadata \<Rightarrow> response" where
  "serve_original env fetch assetId metadata =
     (if storage_type metadata = ''r2'' \<and> truthy (r2_key metadata) then
        (case ARKE_ARCHIVE env (r2_key metadata) of
           None \<Rightarrow> JsonResponse 404 [(''error'', Str ''Asset not found in R2 storage'')]
         | Some r2Object \<Rightarrow>
             StreamResponse (r2_body r2Object)
               (buildAssetHeaders
                  (js_or (content_type metadata)
                     (js_or (r2_contentType r2Object) (Str DEFAULT_CONTENT_TYPE)))
                  (js_or (size_bytes metadata) (Num (r2_size r2Object)))
                  assetId None None None))
      else if storage_type metadata = ''url'' \<and> truthy (url metadata) then
        (let response = fetch (url metadata)
         in if \<not> ok response
            then JsonResponse 503 [(''error'', Str ''Failed to fetch asset from storage'')]
            else StreamResponse (res_body response)
                   (buildAssetHeaders
                      (js_or (content_type metadata)
                         (js_or (res_contentType response) (Str DEFAULT_CONTENT_TYPE)))
                      (size_bytes metadata)
                      assetId None None None))
      else JsonResponse 500
             [(''error'', Str ''Invalid asset metadata: missing storage configuration'')])"

text \<open>
  \<open>trailingPath\<close> is \<open>c.req.param('path') || ''\<close>: the empty string when the route has
  no trailing path.
\<close>

definition handleRetrieval ::
  "Env \<Rightarrow> (jsval \<Rightarrow> FetchResponse) \<Rightarrow> string \<Rightarrow> string \<Rightarrow> response" where
  "handleRetrieval env fetch assetId trailingPath =
     (case ASSET_MAP env assetId of
        None \<Rightarrow> JsonResponse 404 [(''error'', Str ''Asset not found'')]
      | Some metadata \<Rightarrow>
          let isVariantRequest = isValidVariantName (firstPart trailingPath)
          in
          if hasVariants metadata then
            (let variantToServe =
                   (if isVariantRequest then firstPart trailingPath
                    else calculateDefaultVariant metadata)
             in case getVariantToServe metadata variantToServe of
                  Inl e \<Rightarrow> JsonResponse 500 [(''error'', Str ''Internal server error'')]
                | Inr None \<Rightarrow>
                    JsonResponse 404
                      [(''error'', Str ''No suitable variant found''),
                       (''requested'', Str variantToServe)]
                | Inr (Some (variant, actualVariant)) \<Rightarrow>
                    serve_variant env fetch assetId metadata variant actualVariant)
          else if isVariantRequest then
            JsonResponse 400
              [(''error'', Str ''Variants not available for this asset type''),
               (''assetId'', Str assetId)]
          else serve_original env fetch assetId metadata)"

section \<open>Specification-side definitions\<close>

text \<open>
  "The first entry of the chain that is present in the variants mapping", in the words
  of the specification: presence is membership of the name among the mapping's keys.
\<close>

definition first_present ::
  "(string \<times> jsval) list \<Rightarrow> string list \<Rightarrow> (jsval \<times> string) option" where
  "first_present vs chain =
     (case find (\<lambda>name. name \<in> fst ` set vs) chain of
        None \<Rightarrow> None
      | Some name \<Rightarrow> Some (the (map_of vs name), name))"

text \<open>
  A variant entry that registration takes: at least one location source set to a truthy
  value (a non-empty string, for a string), and \<open>width\<close>, \<open>height\<close> and \<open>size_bytes\<close>
  all numbers.
\<close>

definition variant_ok :: "jsval \<Rightarrow> bool" where
  "variant_ok v =
     ((truthy (js_prop v ''r2_key'') \<or> truthy (js_prop v ''url'')) \<and>
      is_number (js_prop v ''width'') \<and>
      is_number (js_prop v ''height'') \<and>
      is_number (js_prop v ''size_bytes''))"

text \<open>The value \<open>{ valid: true }\<close>.\<close>

definition accepted :: Validation where
  "accepted = \<lparr>valid = True, error = None\<rparr>"

section \<open>Example data\<close>

definition now0 :: string where
  "now0 = ''2025-01-01T00:00:00.000Z''"

definition example_body ::
  "jsval \<Rightarrow> jsval \<Rightarrow> jsval \<Rightarrow> int option \<Rightarrow> (string \<times> jsval) list option \<Rightarrow> string option \<Rightarrow>
   RegistrationBody" where
  "example_body u k img w vs d =
     \<lparr>url = u, r2_key = k, content_type = Undefined, size_bytes = Undefined,
      is_image = img, original_width = w, original_height = None, variants = vs,
      default_variant = d, created_at = Undefined\<rparr>"

definition r2_variant :: "string \<Rightarrow> int \<Rightarrow> int \<Rightarrow> int \<Rightarrow> jsval" where
  "r2_variant key w h n =
     Obj [(''r2_key'', Str key), (''width'', Num w), (''height'', Num h), (''size_bytes'', Num n)]"

text \<open>
  The asset of the specification's concrete scenario: an image 4416 pixels wide with a
  medium and an original variant.
\<close>

definition A1_variants :: "(string \<times> jsval) list" where
  "A1_variants =
     [(''medium'', r2_variant ''a1/medium.jpg'' 1288 1082 300000),
      (''original'', r2_variant ''a1/original.jpg'' 4416 3708 4000000)]"

definition A1_body :: RegistrationBody where
  "A1_body = example_body Undefined Undefined (Bool True) (Some 4416) (Some A1_variants) None"

text \<open>An image with a thumb and a medium variant and no original.\<close>

definition A2_variants :: "(string \<times> jsval) list" where
  "A2_variants =
     [(''thumb'', r2_variant ''a2/thumb.jpg'' 200 168 15000),
      (''medium'', r2_variant ''a2/medium.jpg'' 1288 1082 300000)]"

definition A2_body :: RegistrationBody where
  "A2_body = example_body Undefined Undefined (Bool True) (Some 4416) (Some A2_variants) None"

text \<open>Images with a large and an original variant, of different original widths.\<close>

definition A3_variants :: "(string \<times> jsval) list" where
  "A3_variants =
     [(''large'', r2_variant ''a3/large.jpg'' 2400 2016 900000),
      (''original'', r2_variant ''a3/original.jpg'' 4416 3708 4000000)]"

definition zero_width_body :: RegistrationBody where
  "zero_width_body =
     example_body Undefined Undefined (Bool True) (Some 0) (Some A3_variants) None"

definition small_original_body :: RegistrationBody where
  "small_original_body =
     example_body Undefined Undefined (Bool True) (Some 1000) (Some A3_variants) None"

definition unknown_width_body :: RegistrationBody where
  "unknown_width_body =
     example_body Undefined Undefined (Bool True) None (Some A3_variants) None"

text \<open>The image of \<open>A2_body\<close> with \<open>thumb\<close> as its explicit default.\<close>

definition explicit_thumb_body :: RegistrationBody where
  "explicit_thumb_body =
     example_body Undefined Undefined (Bool True) (Some 4416) (Some A2_variants) (Some ''thumb'')"

text \<open>An image with a medium variant only and \<open>large\<close> as its explicit default.\<close>

definition explicit_large_body :: RegistrationBody where
  "explicit_large_body =
     example_body Undefined Undefined (Bool True) (Some 4416)
       (Some [(''medium'', r2_variant ''a4/medium.jpg'' 1288 1082 300000)]) (Some ''large'')"

text \<open>A variant entry with both location sources, and an image that has it as thumb.\<close>

definition both_locations_variant :: jsval where
  "both_locations_variant =
     Obj [(''url'', Str ''https://example.org/a5/thumb.jpg''), (''r2_key'', Str ''a5/thumb.jpg''),
          (''width'', Num 200), (''height'', Num 168), (''size_bytes'', Num 15000)]"

definition both_locations_body :: RegistrationBody where
  "both_locations_body =
     example_body Undefined Undefined (Bool True) None
       (Some [(''thumb'', both_locations_variant)]) None"

text \<open>An image whose medium variant has no \<open>width\<close>.\<close>

definition missing_width_body :: RegistrationBody where
  "missing_width_body =
     example_body Undefined Undefined (Bool True) None
       (Some [(''thumb'', r2_variant ''a6/thumb.jpg'' 200 168 15000),
              (''medium'', Obj [(''r2_key'', Str ''a6/medium.jpg''), (''height'', Num 1082),
                               (''size_bytes'', Num 300000)])])
       None"

text \<open>An image whose only variant has a name outside the four.\<close>

definition huge_body :: RegistrationBody where
  "huge_body =
     example_body Undefined Undefined (Bool True) (Some 4416)
       (Some [(''huge'', r2_variant ''a7/huge.jpg'' 9000 7557 9000000)]) None"

text \<open>Images without a variants mapping: with both locations, and with a URL only.\<close>

definition image_both_body :: RegistrationBody where
  "image_both_body =
     example_body (Str ''https://example.org/a8.jpg'') (Str ''a8.jpg'') (Bool True) None None None"

definition image_url_body :: RegistrationBody where
  "image_url_body =
     example_body (Str ''https://example.org/a9.jpg'') Undefined (Bool True) None None None"

text \<open>A document (no \<open>is_image\<close>) that comes with a variants mapping all the same.\<close>

definition document_body :: RegistrationBody where
  "document_body =
     example_body Undefined (Str ''d1/report.pdf'') Undefined None
       (Some [(''thumb'', Null), (''medium'', r2_variant ''d1/medium.jpg'' 1288 1082 300000)])
       None"

text \<open>A bucket that holds two objects, an empty metadata store, and an origin that is down.\<close>

definition example_env :: Env where
  "example_env =
     \<lparr>ASSET_MAP = (\<lambda>assetId. None),
      ARKE_ARCHIVE =
        (\<lambda>key. if key = Str ''a1/medium.jpg''
               then Some \<lparr>r2_body = ''medium bytes'', r2_contentType = Str ''image/jpeg'',
                          r2_size = 300000\<rparr>
               else if key = Str ''d1/report.pdf''
               then Some \<lparr>r2_body = ''report bytes'', r2_contentType = Str ''application/pdf'',
                          r2_size = 52000\<rparr>
               else None)\<rparr>"

definition no_fetch :: "jsval \<Rightarrow> FetchResponse" where
  "no_fetch location = \<lparr>ok = False, res_body = [], res_contentType = Null\<rparr>"

lemmas example_defs =
  now0_def example_body_def r2_variant_def A1_variants_def A1_body_def A2_variants_def
  A2_body_def A3_variants_def zero_width_body_def small_original_body_def
  unknown_width_body_def explicit_thumb_body_def explicit_large_body_def
  both_locations_variant_def both_locations_body_def missing_width_body_def huge_body_def
  image_both_body_def image_url_body_def document_body_def example_env_def no_fetch_def

section \<open>Lemmas about the variants mapping\<close>

text \<open>When no entry of the mapping is a falsy value, an entry is truthy exactly when its name is a key.\<close>

lemma entry_truthy_iff:
  assumes "\<forall>v \<in> snd ` set vs. truthy v"
  shows "truthy (entry vs name) \<longleftrightarrow> name \<in> fst ` set vs"
proof (cases "map_of vs name")
  case None
  then have "name \<notin> fst ` set vs" by (simp add: map_of_eq_None_iff)
  with None show ?thesis by (simp add: entry_def)
next
  case (Some v)
  then have "(name, v) \<in> set vs" by (rule map_of_SomeD)
  with assms Some show ?thesis by (force simp: entry_def)
qed

lemma entry_present:
  "name \<in> fst ` set vs \<Longrightarrow> entry vs name = the (map_of vs name)"
  by (cases "map_of vs name") (auto simp: entry_def map_of_eq_None_iff)

lemma walk_chain_first_present:
  assumes "\<forall>v \<in> snd ` set vs. truthy v"
  shows "walk_chain vs chain = first_present vs chain"
proof (induction chain)
  case Nil
  show ?case by (simp add: first_present_def)
next
  case (Cons name rest)
  show ?case
  proof (cases "name \<in> fst ` set vs")
    case True
    with assms show ?thesis
      using entry_truthy_iff[OF assms, of name] entry_present[OF True]
      by (simp add: first_present_def Let_def)
  next
    case False
    with Cons show ?thesis
      using entry_truthy_iff[OF assms, of name]
      by (simp add: first_present_def Let_def)
  qed
qed

lemma walk_chain_head:
  "truthy (entry vs name) \<Longrightarrow> walk_chain vs (name # rest) = Some (entry vs name, name)"
  by (simp add: Let_def)

lemma fallbackChains_head:
  "name \<in> set VARIANT_NAMES \<Longrightarrow> \<exists>rest. fallbackChains name = Some (name # rest)"
  by (auto simp: VARIANT_NAMES_def fallbackChains_def)

lemma VARIANT_NAMES_nonempty: "name \<in> set VARIANT_NAMES \<Longrightarrow> name \<noteq> []"
  by (auto simp: VARIANT_NAMES_def)

section \<open>Lemmas about the default variant\<close>

lemma default_cascade:
  assumes "variants m = Some vs" and "\<forall>v \<in> snd ` set vs. truthy v"
    and "\<not> truthy_str (default_variant m)"
  shows "calculateDefaultVariant m =
     (if ''medium'' \<in> fst ` set vs then ''medium''
      else if ''original'' \<in> fst ` set vs \<and>
              (\<exists>w. original_width m = Some w \<and> w \<noteq> 0 \<and> w \<le> 1288) then ''original''
      else if ''large'' \<in> fst ` set vs then ''large''
      else if ''original'' \<in> fst ` set vs then ''original''
      else if ''thumb'' \<in> fst ` set vs then ''thumb''
      else ''original'')"
proof -
  have width: "(truthy_num (original_width m) \<and> the (original_width m) \<le> VARIANT_SIZES_medium)
      = (\<exists>w. original_width m = Some w \<and> w \<noteq> 0 \<and> w \<le> 1288)"
    by (cases "original_width m") (simp_all add: VARIANT_SIZES_medium_def)
  show ?thesis
    unfolding calculateDefaultVariant_def
    using assms(1,3)
    by (auto simp: entry_truthy_iff[OF assms(2)] width)
qed

lemma calculateDefaultVariant_no_default:
  assumes "variants m = Some vs" and "\<forall>v \<in> snd ` set vs. truthy v"
    and "\<not> truthy_str (default_variant m)"
  shows "calculateDefaultVariant m \<in> set VARIANT_NAMES"
    and "set VARIANT_NAMES \<inter> fst ` set vs \<noteq> {} \<Longrightarrow> calculateDefaultVariant m \<in> fst ` set vs"
    and "calculateDefaultVariant m \<notin> fst ` set vs \<Longrightarrow>
           calculateDefaultVariant m = ''original'' \<and> ''original'' \<notin> fst ` set vs"
  unfolding default_cascade[OF assms]
  by (auto simp: VARIANT_NAMES_def split: if_splits)

section \<open>Lemmas about validation\<close>


lemma validateVariant_truthy:
  "validateVariant v = Inr r \<Longrightarrow> truthy r = variant_ok v"
  by (auto simp: validateVariant_def variant_ok_def js_or_def js_and_def Let_def split: if_splits)

lemma validateVariant_Inl: "validateVariant v = Inl e \<Longrightarrow> \<not> variant_ok v"
  by (auto simp: validateVariant_def variant_ok_def Let_def split: if_splits)

lemma variant_ok_truthy: "variant_ok v \<Longrightarrow> truthy v"
  by (cases v) (simp_all add: variant_ok_def)

lemma validate_entries_None_iff:
  "validate_entries vs = Inr None \<longleftrightarrow> (\<forall>v \<in> snd ` set vs. variant_ok v)"
proof (induction vs)
  case Nil
  show ?case by simp
next
  case (Cons p vs)
  obtain k v where p: "p = (k, v)" by (cases p)
  show ?case
  proof (cases "validateVariant v")
    case (Inl e)
    then show ?thesis using validateVariant_Inl[OF Inl] by (simp add: p)
  next
    case (Inr r)
    then show ?thesis using validateVariant_truthy[OF Inr] Cons.IH by (simp add: p)
  qed
qed

lemma validate_entries_Some:
  "validate_entries vs = Inr (Some r) \<Longrightarrow>
   \<exists>(k, v) \<in> set vs. \<not> variant_ok v \<and>
      r = \<lparr>valid = False, error = Some (invalid_variant_message k)\<rparr>"
proof (induction vs)
  case Nil
  then show ?case by simp
next
  case (Cons p vs)
  obtain k v where p: "p = (k, v)" by (cases p)
  show ?case
  proof (cases "validateVariant v")
    case (Inl e)
    with Cons.prems show ?thesis by (simp add: p)
  next
    case (Inr x)
    show ?thesis
    proof (cases "truthy x")
      case True
      with Cons Inr show ?thesis by (auto simp: p)
    next
      case False
      with Cons.prems Inr validateVariant_truthy[OF Inr] show ?thesis by (auto simp: p)
    qed
  qed
qed


lemma validate_image_variants:
  assumes "truthy (is_image body)" and "variants body = Some vs"
  shows "validateRegistrationBody body =
     (case validate_entries vs of
        Inl e \<Rightarrow> Inl e
      | Inr (Some r) \<Rightarrow> Inr r
      | Inr None \<Rightarrow>
          if vs = []
          then Inr \<lparr>valid = False,
                    error = Some ''Image assets with variants must have at least one variant''\<rparr>
          else Inr accepted)"
  using assms
  by (simp add: validateRegistrationBody_def accepted_def split: sum.splits option.splits)


lemma accepted_iff:
  assumes "truthy (is_image body)" and "variants body = Some vs"
  shows "(validateRegistrationBody body = Inr accepted) =
           (vs \<noteq> [] \<and> (\<forall>v \<in> snd ` set vs. variant_ok v))"
proof (cases "validate_entries vs")
  case (Inl e)
  then have "\<not> (\<forall>v \<in> snd ` set vs. variant_ok v)"
    using validate_entries_None_iff[of vs] by simp
  with Inl validate_image_variants[OF assms] show ?thesis by simp
next
  case (Inr x)
  show ?thesis
  proof (cases x)
    case None
    with Inr validate_image_variants[OF assms] validate_entries_None_iff[of vs] show ?thesis
      by (auto simp: accepted_def)
  next
    case (Some r)
    with Inr validate_entries_Some[of vs r] have "\<not> valid r" by auto
    moreover from Some Inr have "\<not> (\<forall>v \<in> snd ` set vs. variant_ok v)"
      using validate_entries_None_iff[of vs] by simp
    ultimately show ?thesis
      using Inr Some validate_image_variants[OF assms] by (auto simp: accepted_def)
  qed
qed

section \<open>Lemmas about registration\<close>

lemma handleRegistration_accepted:
  "validateRegistrationBody body = Inr accepted \<Longrightarrow>
   snd (handleRegistration env assetId body now) =
     env\<lparr>ASSET_MAP := (ASSET_MAP env)(assetId \<mapsto> with_default (build_metadata body now))\<rparr>"
  by (simp add: handleRegistration_def accepted_def Let_def)

lemma handleRegistration_rejected:
  "validateRegistrationBody body = Inr \<lparr>valid = False, error = Some msg\<rparr> \<Longrightarrow>
   handleRegistration env assetId body now = (JsonResponse 400 [(''error'', Str msg)], env)"
  by (simp add: handleRegistration_def)



lemma hasVariants_build_metadata:
  "hasVariants (build_metadata body now) =
     (truthy (is_image body) \<and> (case variants body of None \<Rightarrow> False | Some vs \<Rightarrow> vs \<noteq> []))"
  by (simp add: hasVariants_def build_metadata_def js_or_def split: option.splits)

lemma hasVariants_with_default: "hasVariants (with_default m) = hasVariants m"
  by (simp add: with_default_def hasVariants_def)

lemma variants_with_default: "variants (with_default m) = variants m"
  by (simp add: with_default_def)

section \<open>The variant resolver\<close>

text \<open>
  Claim C1. For a variant-bearing record whose mapping holds variant records (no entry
  is a falsy value such as \<open>null\<close>), and each of the four target names, the resolver
  returns the first name of the target's chain that is a key of the mapping, with that
  key's entry: thumb walks thumb, medium, original; medium walks medium, original; large
  walks large, medium, original; original walks original alone. So thumb on a record
  holding medium and original only gives the medium entry and the actual variant medium,
  and original on a record without original gives \<open>null\<close>, whatever else there is.
\<close>

theorem getVariantToServe_walks_fallback_chain:
  assumes "hasVariants m" and "variants m = Some vs" and "\<forall>v \<in> snd ` set vs. truthy v"
  shows "getVariantToServe m ''thumb'' = Inr (first_present vs [''thumb'', ''medium'', ''original''])
       \<and> getVariantToServe m ''medium'' = Inr (first_present vs [''medium'', ''original''])
       \<and> getVariantToServe m ''large'' = Inr (first_present vs [''large'', ''medium'', ''original''])
       \<and> getVariantToServe m ''original'' = Inr (first_present vs [''original''])
       \<and> (fst ` set vs = {''medium'', ''original''} \<longrightarrow>
            getVariantToServe m ''thumb'' = Inr (Some (the (map_of vs ''medium''), ''medium'')))
       \<and> (''original'' \<notin> fst ` set vs \<longrightarrow> getVariantToServe m ''original'' = Inr None)"
proof -
  have chains:
    "getVariantToServe m ''thumb'' = Inr (first_present vs [''thumb'', ''medium'', ''original''])"
    "getVariantToServe m ''medium'' = Inr (first_present vs [''medium'', ''original''])"
    "getVariantToServe m ''large'' = Inr (first_present vs [''large'', ''medium'', ''original''])"
    "getVariantToServe m ''original'' = Inr (first_present vs [''original''])"
    using assms(2) walk_chain_first_present[OF assms(3)]
    by (simp_all add: getVariantToServe_def fallbackChains_def del: walk_chain.simps)
  have "fst ` set vs = {''medium'', ''original''} \<Longrightarrow>
      first_present vs [''thumb'', ''medium'', ''original'']
        = Some (the (map_of vs ''medium''), ''medium'')"
    by (simp add: first_present_def)
  moreover have "''original'' \<notin> fst ` set vs \<Longrightarrow> first_present vs [''original''] = None"
    by (simp add: first_present_def)
  ultimately show ?thesis using chains by simp
qed

text \<open>
  Witness for C1, on the record of asset A1 (medium and original) and on the record of
  A2 (thumb and medium, no original).
\<close>

theorem getVariantToServe_walks_fallback_chain_witness:
  "hasVariants (build_metadata A1_body now0)
   \<and> fst ` set A1_variants = {''medium'', ''original''}
   \<and> getVariantToServe (build_metadata A1_body now0) ''thumb''
       = Inr (Some (r2_variant ''a1/medium.jpg'' 1288 1082 300000, ''medium''))
   \<and> getVariantToServe (build_metadata A1_body now0) ''original''
       = Inr (Some (r2_variant ''a1/original.jpg'' 4416 3708 4000000, ''original''))
   \<and> hasVariants (build_metadata A2_body now0)
   \<and> ''original'' \<notin> fst ` set A2_variants
   \<and> getVariantToServe (build_metadata A2_body now0) ''original'' = Inr None
   \<and> getVariantToServe (build_metadata A2_body now0) ''large''
       = Inr (Some (r2_variant ''a2/medium.jpg'' 1288 1082 300000, ''medium''))"
proof -
  have a1: "hasVariants (build_metadata A1_body now0)"
    by (simp add: hasVariants_build_metadata example_defs)
  have a2: "variants (build_metadata A1_body now0) = Some A1_variants"
    by (simp add: build_metadata_def example_defs)
  have a3: "\<forall>v \<in> snd ` set A1_variants. truthy v"
    by (simp add: example_defs)
  have a4: "fst ` set A1_variants = {''medium'', ''original''}"
    by (simp add: example_defs)
  have b1: "hasVariants (build_metadata A2_body now0)"
    by (simp add: hasVariants_build_metadata example_defs)
  have b2: "variants (build_metadata A2_body now0) = Some A2_variants"
    by (simp add: build_metadata_def example_defs)
  have b3: "\<forall>v \<in> snd ` set A2_variants. truthy v"
    by (simp add: example_defs)
  have b4: "''original'' \<notin> fst ` set A2_variants"
    by (simp add: example_defs)
  have m1: "the (map_of A1_variants ''medium'') = r2_variant ''a1/medium.jpg'' 1288 1082 300000"
    by (simp add: A1_variants_def)
  have o1: "first_present A1_variants [''original'']
      = Some (r2_variant ''a1/original.jpg'' 4416 3708 4000000, ''original'')"
    by (simp add: first_present_def A1_variants_def)
  have t1: "first_present A1_variants [''thumb'', ''medium'', ''original'']
      = Some (r2_variant ''a1/medium.jpg'' 1288 1082 300000, ''medium'')"
    by (simp add: first_present_def A1_variants_def)
  have o2: "first_present A2_variants [''original''] = None"
    by (simp add: first_present_def A2_variants_def)
  have l2: "first_present A2_variants [''large'', ''medium'', ''original'']
      = Some (r2_variant ''a2/medium.jpg'' 1288 1082 300000, ''medium'')"
    by (simp add: first_present_def A2_variants_def)
  show ?thesis
    using a1 a4 b1 b4
      getVariantToServe_walks_fallback_chain[OF a1 a2 a3]
      getVariantToServe_walks_fallback_chain[OF b1 b2 b3]
    by (simp add: m1 o1 l2 t1 o2)
qed

section \<open>Default-variant computation\<close>

text \<open>
  Counterexample for C2, as stated. The record has a large and an original variant, no
  medium, no explicit default, and \<open>original_width = 0\<close>: a known width that is at most
  1288. Rule (2) of the claim gives \<open>original\<close>; the code's test
  \<open>metadata.original_width && ...\<close> takes 0 for a missing width and the result is \<open>large\<close>.
\<close>

theorem calculateDefaultVariant_zero_width_counterexample:
  "hasVariants (build_metadata zero_width_body now0)
   \<and> \<not> truthy_str (default_variant (build_metadata zero_width_body now0))
   \<and> fst ` set (the (variants (build_metadata zero_width_body now0))) = {''large'', ''original''}
   \<and> original_width (build_metadata zero_width_body now0) = Some 0
   \<and> (0 :: int) \<le> VARIANT_SIZES_medium
   \<and> calculateDefaultVariant (build_metadata zero_width_body now0) = ''large''"
  by (simp add: example_defs build_metadata_def hasVariants_def js_or_def
        calculateDefaultVariant_def entry_def VARIANT_SIZES_medium_def)

text \<open>
  Claim C2, amended. For a variant-bearing record of variant records that has no explicit
  default, default-variant computation returns the first applicable of: (1) medium if
  present; (2) original if present and \<open>original_width\<close> is known, not zero and at most
  1288; (3) large if present; (4) original if present; (5) thumb if present; (6) original.
  With \<open>original_width\<close> absent, rule (2) does not apply and the cascade goes on.
\<close>

theorem calculateDefaultVariant_priority:
  assumes "hasVariants m" and "variants m = Some vs" and "\<forall>v \<in> snd ` set vs. truthy v"
    and "\<not> truthy_str (default_variant m)"
  shows "calculateDefaultVariant m =
     (if ''medium'' \<in> fst ` set vs then ''medium''
      else if ''original'' \<in> fst ` set vs \<and>
              (\<exists>w. original_width m = Some w \<and> w \<noteq> 0 \<and> w \<le> 1288) then ''original''
      else if ''large'' \<in> fst ` set vs then ''large''
      else if ''original'' \<in> fst ` set vs then ''original''
      else if ''thumb'' \<in> fst ` set vs then ''thumb''
      else ''original'')"
proof -
  note present = entry_truthy_iff[OF assms(3)]
  have small: "(truthy_num (original_width m) \<and> the (original_width m) \<le> VARIANT_SIZES_medium)
      = (\<exists>w. original_width m = Some w \<and> w \<noteq> 0 \<and> w \<le> 1288)"
  proof (cases "original_width m")
    case None
    then show ?thesis by simp
  next
    case (Some w)
    then show ?thesis by (simp add: VARIANT_SIZES_medium_def)
  qed
  from assms(2,4) have "calculateDefaultVariant m =
     (if truthy (entry vs ''medium'') then ''medium''
      else if truthy (entry vs ''original'') \<and> truthy_num (original_width m)
              \<and> the (original_width m) \<le> VARIANT_SIZES_medium then ''original''
      else if truthy (entry vs ''large'') then ''large''
      else if truthy (entry vs ''original'') then ''original''
      else if truthy (entry vs ''thumb'') then ''thumb''
      else ''original'')"
    by (simp add: calculateDefaultVariant_def)
  then show ?thesis
    by (simp only: present small)
qed

text \<open>
  Witness for C2: large and original present, with an original 1000 pixels wide (rule 2)
  and with an original of unknown width (rule 3).
\<close>

theorem calculateDefaultVariant_priority_witness:
  "hasVariants (build_metadata small_original_body now0)
   \<and> \<not> truthy_str (default_variant (build_metadata small_original_body now0))
   \<and> calculateDefaultVariant (build_metadata small_original_body now0) = ''original''
   \<and> hasVariants (build_metadata unknown_width_body now0)
   \<and> \<not> truthy_str (default_variant (build_metadata unknown_width_body now0))
   \<and> original_width (build_metadata unknown_width_body now0) = None
   \<and> calculateDefaultVariant (build_metadata unknown_width_body now0) = ''large''"
proof -
  have a1: "hasVariants (build_metadata small_original_body now0)"
    by (simp add: hasVariants_build_metadata example_defs)
  have a2: "variants (build_metadata small_original_body now0) = Some A3_variants"
    by (simp add: build_metadata_def example_defs)
  have a3: "\<forall>v \<in> snd ` set A3_variants. truthy v"
    by (simp add: example_defs)
  have a4: "\<not> truthy_str (default_variant (build_metadata small_original_body now0))"
    by (simp add: build_metadata_def example_defs)
  have a5: "original_width (build_metadata small_original_body now0) = Some 1000"
    by (simp add: build_metadata_def example_defs)
  have b1: "hasVariants (build_metadata unknown_width_body now0)"
    by (simp add: hasVariants_build_metadata example_defs)
  have b2: "variants (build_metadata unknown_width_body now0) = Some A3_variants"
    by (simp add: build_metadata_def example_defs)
  have b4: "\<not> truthy_str (default_variant (build_metadata unknown_width_body now0))"
    by (simp add: build_metadata_def example_defs)
  have b5: "original_width (build_metadata unknown_width_body now0) = None"
    by (simp add: build_metadata_def example_defs)
  have keys: "fst ` set A3_variants = {''large'', ''original''}"
    by (simp add: example_defs)
  show ?thesis
    using a1 a4 b1 b4 b5
      calculateDefaultVariant_priority[OF a1 a2 a3 a4]
      calculateDefaultVariant_priority[OF b1 b2 a3 b4]
    by (simp add: keys a5)
qed

text \<open>
  Counterexample for C9, as stated. The record has a thumb and a medium variant and the
  explicit default \<open>thumb\<close>; default-variant computation returns \<open>thumb\<close>, not \<open>medium\<close>
  ("explicit default takes precedence").
\<close>

theorem explicit_default_overrides_medium_counterexample:
  "hasVariants (build_metadata explicit_thumb_body now0)
   \<and> ''medium'' \<in> fst ` set (the (variants (build_metadata explicit_thumb_body now0)))
   \<and> calculateDefaultVariant (build_metadata explicit_thumb_body now0) = ''thumb''
   \<and> ''thumb'' \<noteq> ''medium''"
  by (simp add: example_defs build_metadata_def hasVariants_def js_or_def
        calculateDefaultVariant_def)

text \<open>
  Claim C9, amended. For a variant-bearing record of variant records whose mapping
  contains medium, default-variant computation returns medium whatever the other fields
  are, unless the record has an explicit \<open>default_variant\<close>, which is then returned as
  it is.
\<close>

theorem medium_is_default:
  assumes "hasVariants m" and "variants m = Some vs" and "\<forall>v \<in> snd ` set vs. truthy v"
    and "''medium'' \<in> fst ` set vs"
  shows "calculateDefaultVariant m =
           (if truthy_str (default_variant m) then the (default_variant m) else ''medium'')"
  using assms(2,4) by (simp add: calculateDefaultVariant_def entry_truthy_iff[OF assms(3)])

text \<open>Witness for C9, on the records of A1 and A2, which have no explicit default.\<close>

theorem medium_is_default_witness:
  "hasVariants (build_metadata A1_body now0)
   \<and> ''medium'' \<in> fst ` set A1_variants
   \<and> calculateDefaultVariant (build_metadata A1_body now0) = ''medium''
   \<and> hasVariants (build_metadata A2_body now0)
   \<and> ''medium'' \<in> fst ` set A2_variants
   \<and> calculateDefaultVariant (build_metadata A2_body now0) = ''medium''"
proof -
  have a1: "hasVariants (build_metadata A1_body now0)"
    by (simp add: hasVariants_build_metadata example_defs)
  have a2: "variants (build_metadata A1_body now0) = Some A1_variants"
    by (simp add: build_metadata_def example_defs)
  have a3: "\<forall>v \<in> snd ` set A1_variants. truthy v"
    by (simp add: example_defs)
  have a4: "''medium'' \<in> fst ` set A1_variants"
    by (simp add: example_defs)
  have a5: "default_variant (build_metadata A1_body now0) = None"
    by (simp add: build_metadata_def example_defs)
  have b1: "hasVariants (build_metadata A2_body now0)"
    by (simp add: hasVariants_build_metadata example_defs)
  have b2: "variants (build_metadata A2_body now0) = Some A2_variants"
    by (simp add: build_metadata_def example_defs)
  have b3: "\<forall>v \<in> snd ` set A2_variants. truthy v"
    by (simp add: example_defs)
  have b4: "''medium'' \<in> fst ` set A2_variants"
    by (simp add: example_defs)
  have b5: "default_variant (build_metadata A2_body now0) = None"
    by (simp add: build_metadata_def example_defs)
  show ?thesis
    using a1 a4 b1 b4 medium_is_default[OF a1 a2 a3 a4] medium_is_default[OF b1 b2 b3 b4]
    by (simp add: a5 b5)
qed

section \<open>Retrieval of a scalar record\<close>

text \<open>
  Claim C3. For a stored record that is not variant-bearing and a retrieval whose first
  path token is one of thumb, medium, large, original, the response is the 400 error
  "Variants not available for this asset type": it is not what serving the primary
  object gives, it is not a 404, and it is not a stream.
\<close>

theorem retrieval_rejects_variant_of_scalar:
  assumes "ASSET_MAP env assetId = Some m" and "\<not> hasVariants m"
    and "isValidVariantName (firstPart trailingPath)"
  shows "handleRetrieval env fetch assetId trailingPath =
           JsonResponse 400 [(''error'', Str ''Variants not available for this asset type''),
                             (''assetId'', Str assetId)]
       \<and> handleRetrieval env fetch assetId trailingPath \<noteq> serve_original env fetch assetId m
       \<and> (\<forall>payload. handleRetrieval env fetch assetId trailingPath \<noteq> JsonResponse 404 payload)
       \<and> (\<forall>body headers.
             handleRetrieval env fetch assetId trailingPath \<noteq> StreamResponse body headers)"
proof -
  have r: "handleRetrieval env fetch assetId trailingPath =
      JsonResponse 400 [(''error'', Str ''Variants not available for this asset type''),
                        (''assetId'', Str assetId)]"
    using assms by (simp add: handleRetrieval_def)
  have "serve_original env fetch assetId m \<noteq>
      JsonResponse 400 [(''error'', Str ''Variants not available for this asset type''),
                        (''assetId'', Str assetId)]"
    by (simp add: serve_original_def Let_def split: option.splits)
  with r show ?thesis by simp
qed

text \<open>
  Witness for C3: the document D1, registered without \<open>is_image\<close>, retrieved at
  \<open>/thumb/report.pdf\<close>.
\<close>

theorem retrieval_rejects_variant_of_scalar_witness:
  "ASSET_MAP (snd (handleRegistration example_env ''D1'' document_body now0)) ''D1''
     = Some (build_metadata document_body now0)
   \<and> \<not> hasVariants (build_metadata document_body now0)
   \<and> isValidVariantName (firstPart ''/thumb/report.pdf'')
   \<and> handleRetrieval (snd (handleRegistration example_env ''D1'' document_body now0)) no_fetch
        ''D1'' ''/thumb/report.pdf''
       = JsonResponse 400 [(''error'', Str ''Variants not available for this asset type''),
                           (''assetId'', Str ''D1'')]"
proof -
  have h2: "\<not> hasVariants (build_metadata document_body now0)"
    by (simp add: hasVariants_build_metadata example_defs)
  have acc: "validateRegistrationBody document_body = Inr accepted"
    by (simp add: validateRegistrationBody_def accepted_def example_defs)
  have h1: "ASSET_MAP (snd (handleRegistration example_env ''D1'' document_body now0)) ''D1''
      = Some (build_metadata document_body now0)"
    using h2 by (simp add: handleRegistration_accepted[OF acc] with_default_def)
  have h3: "isValidVariantName (firstPart ''/thumb/report.pdf'')"
    by (simp add: isValidVariantName_def firstPart_def VARIANT_NAMES_def)
  show ?thesis
    using h1 h2 h3 retrieval_rejects_variant_of_scalar[OF h1 h2 h3, of no_fetch]
    by simp
qed

section \<open>Validation and registration\<close>




text \<open>
  Counterexample for C5, as stated. The body is an image with a medium variant only and
  the explicit default \<open>large\<close>. It is accepted, and the record stored is
  variant-bearing with \<open>default_variant = large\<close>, which is not a key of its mapping.
\<close>

theorem explicit_default_not_checked_counterexample:
  "validateRegistrationBody explicit_large_body = Inr \<lparr>valid = True, error = None\<rparr>
   \<and> hasVariants
        (the (ASSET_MAP (snd (handleRegistration example_env ''A4'' explicit_large_body now0))
                ''A4''))
   \<and> default_variant
        (the (ASSET_MAP (snd (handleRegistration example_env ''A4'' explicit_large_body now0))
                ''A4''))
       = Some ''large''
   \<and> fst ` set (the (variants
        (the (ASSET_MAP (snd (handleRegistration example_env ''A4'' explicit_large_body now0))
                ''A4''))))
       = {''medium''}
   \<and> ''large'' \<notin> {''medium''}"
  by (simp add: example_defs validateRegistrationBody_def validateVariant_def js_or_def
        js_and_def handleRegistration_def Let_def with_default_def build_metadata_def
        hasVariants_def)

text \<open>
  Claim C5, amended. Registration of an accepted body with \<open>is_image\<close> true and a
  variants mapping stores a variant-bearing record with that mapping. When the body
  supplied no explicit \<open>default_variant\<close> and the mapping has at least one of the four
  recognized names among its keys, the stored \<open>default_variant\<close> names a key of the
  mapping. An explicit \<open>default_variant\<close> is stored as supplied, unchecked.
\<close>

theorem persisted_default_present:
  assumes "validateRegistrationBody body = Inr accepted"
    and "truthy (is_image body)" and "variants body = Some vs"
  shows "\<exists>m. ASSET_MAP (snd (handleRegistration env assetId body now)) assetId = Some m
           \<and> hasVariants m \<and> variants m = Some vs
           \<and> (truthy_str (default_variant body) \<longrightarrow> default_variant m = default_variant body)
           \<and> (\<not> truthy_str (default_variant body) \<and> set VARIANT_NAMES \<inter> fst ` set vs \<noteq> {}
                \<longrightarrow> (\<exists>d. default_variant m = Some d \<and> d \<in> fst ` set vs))"
proof -
  let ?fresh = "build_metadata body now"
  from accepted_iff[OF assms(2,3)] assms(1)
  have ne: "vs \<noteq> []" and ok: "\<forall>v \<in> snd ` set vs. truthy v"
    by (auto intro: variant_ok_truthy)
  have hv: "hasVariants ?fresh" using assms(2,3) ne by (simp add: hasVariants_build_metadata)
  have vs0: "variants ?fresh = Some vs" using assms(3) by (simp add: build_metadata_def)
  have d0: "default_variant ?fresh = default_variant body" by (simp add: build_metadata_def)
  have stored: "ASSET_MAP (snd (handleRegistration env assetId body now)) assetId
      = Some (with_default ?fresh)"
    by (simp add: handleRegistration_accepted[OF assms(1)])
  have explicit: "truthy_str (default_variant body) \<Longrightarrow>
      default_variant (with_default ?fresh) = default_variant body"
    by (simp add: with_default_def d0)
  have computed: "\<not> truthy_str (default_variant body) \<Longrightarrow>
      set VARIANT_NAMES \<inter> fst ` set vs \<noteq> {} \<Longrightarrow>
      \<exists>d. default_variant (with_default ?fresh) = Some d \<and> d \<in> fst ` set vs"
    using calculateDefaultVariant_no_default(2)[OF vs0 ok] hv
    by (simp add: with_default_def d0)
  show ?thesis
    using stored hv vs0 explicit computed
    by (auto simp: hasVariants_with_default variants_with_default)
qed

text \<open>
  Witness for C5: asset A1, registered without a default, is stored with the default
  \<open>medium\<close>, a key of its mapping; the body with the explicit default \<open>large\<close> is
  stored with \<open>large\<close>.
\<close>

theorem persisted_default_present_witness:
  "validateRegistrationBody A1_body = Inr accepted
   \<and> truthy (is_image A1_body)
   \<and> \<not> truthy_str (default_variant A1_body)
   \<and> set VARIANT_NAMES \<inter> fst ` set A1_variants \<noteq> {}
   \<and> default_variant
        (the (ASSET_MAP (snd (handleRegistration example_env ''A1'' A1_body now0)) ''A1''))
       \<in> Some ` fst ` set A1_variants
   \<and> validateRegistrationBody explicit_large_body = Inr accepted
   \<and> truthy_str (default_variant explicit_large_body)
   \<and> default_variant
        (the (ASSET_MAP (snd (handleRegistration example_env ''A4'' explicit_large_body now0))
                ''A4''))
       = Some ''large''"
proof -
  have a1: "validateRegistrationBody A1_body = Inr accepted"
    by (simp add: example_defs validateRegistrationBody_def validateVariant_def js_or_def
          js_and_def accepted_def)
  have a2: "truthy (is_image A1_body)" by (simp add: example_defs)
  have a3: "variants A1_body = Some A1_variants" by (simp add: example_defs)
  have a4: "\<not> truthy_str (default_variant A1_body)" by (simp add: example_defs)
  have a5: "set VARIANT_NAMES \<inter> fst ` set A1_variants \<noteq> {}"
    by (simp add: example_defs VARIANT_NAMES_def)
  have b1: "validateRegistrationBody explicit_large_body = Inr accepted"
    by (simp add: example_defs validateRegistrationBody_def validateVariant_def js_or_def
          js_and_def accepted_def)
  have b2: "truthy (is_image explicit_large_body)" by (simp add: example_defs)
  have b3: "variants explicit_large_body
      = Some [(''medium'', r2_variant ''a4/medium.jpg'' 1288 1082 300000)]"
    by (simp add: example_defs)
  have b4: "truthy_str (default_variant explicit_large_body)" by (simp add: example_defs)
  have b5: "default_variant explicit_large_body = Some ''large''" by (simp add: example_defs)
  from persisted_default_present[OF a1 a2 a3, of example_env "''A1''" now0] a4 a5
  have computed: "default_variant
      (the (ASSET_MAP (snd (handleRegistration example_env ''A1'' A1_body now0)) ''A1''))
      \<in> Some ` fst ` set A1_variants"
    by force
  from persisted_default_present[OF b1 b2 b3, of example_env "''A4''" now0] b4 b5
  have explicit: "default_variant
      (the (ASSET_MAP (snd (handleRegistration example_env ''A4'' explicit_large_body now0))
              ''A4''))
      = Some ''large''"
    by auto
  show ?thesis using a1 a2 a4 a5 b1 b4 computed explicit by simp
qed

text \<open>
  Counterexample for C6, as stated. The body is an image without a variants mapping that
  has both a \<open>url\<close> and an \<open>r2_key\<close>; validation accepts it.
\<close>

theorem image_without_variants_both_locations_counterexample:
  "truthy (is_image image_both_body)
   \<and> variants image_both_body = None
   \<and> truthy (url image_both_body) \<and> truthy (r2_key image_both_body)
   \<and> validateRegistrationBody image_both_body = Inr \<lparr>valid = True, error = None\<rparr>"
  by (simp add: example_defs validateRegistrationBody_def)

text \<open>
  Claim C6, amended. For a registration body with \<open>is_image\<close> true and no variants
  mapping, validation requires at least one storage location: a body with neither \<open>url\<close>
  nor \<open>r2_key\<close> is rejected ("Either url, r2_key, or variants is required") and nothing is
  stored, and a body with exactly one of them, or with both, is accepted and stored.
\<close>

theorem validation_image_without_variants:
  assumes "truthy (is_image body)" and "variants body = None"
  shows "(\<not> truthy (url body) \<and> \<not> truthy (r2_key body) \<longrightarrow>
            validateRegistrationBody body =
              Inr \<lparr>valid = False, error = Some ''Either url, r2_key, or variants is required''\<rparr>
            \<and> handleRegistration env assetId body now =
                (JsonResponse 400
                   [(''error'', Str ''Either url, r2_key, or variants is required'')], env))
       \<and> (truthy (url body) \<or> truthy (r2_key body) \<longrightarrow>
            validateRegistrationBody body = Inr accepted
            \<and> ASSET_MAP (snd (handleRegistration env assetId body now)) assetId
                = Some (build_metadata body now))"
proof (intro conjI impI)
  assume neither: "\<not> truthy (url body) \<and> \<not> truthy (r2_key body)"
  with assms show r: "validateRegistrationBody body =
      Inr \<lparr>valid = False, error = Some ''Either url, r2_key, or variants is required''\<rparr>"
    by (simp add: validateRegistrationBody_def)
  then show "handleRegistration env assetId body now =
      (JsonResponse 400 [(''error'', Str ''Either url, r2_key, or variants is required'')], env)"
    by (rule handleRegistration_rejected)
next
  assume some: "truthy (url body) \<or> truthy (r2_key body)"
  with assms show acc: "validateRegistrationBody body = Inr accepted"
    by (auto simp: validateRegistrationBody_def accepted_def)
  have "\<not> hasVariants (build_metadata body now)"
    using assms(2) by (simp add: hasVariants_build_metadata)
  then have "with_default (build_metadata body now) = build_metadata body now"
    by (simp add: with_default_def)
  then show "ASSET_MAP (snd (handleRegistration env assetId body now)) assetId
      = Some (build_metadata body now)"
    by (simp add: handleRegistration_accepted[OF acc])
qed

text \<open>
  Witness for C6: an image with a URL only is accepted and stored, and the same image
  without the URL is rejected.
\<close>

theorem validation_image_without_variants_witness:
  "truthy (is_image image_url_body) \<and> variants image_url_body = None
   \<and> truthy (url image_url_body) \<and> \<not> truthy (r2_key image_url_body)
   \<and> validateRegistrationBody image_url_body = Inr accepted
   \<and> ASSET_MAP (snd (handleRegistration example_env ''A9'' image_url_body now0)) ''A9''
       = Some (build_metadata image_url_body now0)
   \<and> truthy (is_image (image_url_body\<lparr>url := Undefined\<rparr>))
   \<and> variants (image_url_body\<lparr>url := Undefined\<rparr>) = None
   \<and> \<not> truthy (url (image_url_body\<lparr>url := Undefined\<rparr>))
   \<and> \<not> truthy (r2_key (image_url_body\<lparr>url := Undefined\<rparr>))
   \<and> handleRegistration example_env ''A9'' (image_url_body\<lparr>url := Undefined\<rparr>) now0
       = (JsonResponse 400 [(''error'', Str ''Either url, r2_key, or variants is required'')],
          example_env)"
proof -
  have a1: "truthy (is_image image_url_body)" by (simp add: example_defs)
  have a2: "variants image_url_body = None" by (simp add: example_defs)
  have a3: "truthy (url image_url_body) \<and> \<not> truthy (r2_key image_url_body)"
    by (simp add: example_defs)
  have b1: "truthy (is_image (image_url_body\<lparr>url := Undefined\<rparr>))" by (simp add: example_defs)
  have b2: "variants (image_url_body\<lparr>url := Undefined\<rparr>) = None" by (simp add: example_defs)
  have b3: "\<not> truthy (url (image_url_body\<lparr>url := Undefined\<rparr>))
      \<and> \<not> truthy (r2_key (image_url_body\<lparr>url := Undefined\<rparr>))"
    by (simp add: example_defs)
  show ?thesis
    using a1 a2 a3 b1 b2 b3
      validation_image_without_variants[OF a1 a2, of example_env "''A9''" now0]
      validation_image_without_variants[OF b1 b2, of example_env "''A9''" now0]
    by simp
qed

text \<open>
  Claim C7. A registration body with \<open>is_image\<close> true whose variants mapping contains a
  key outside thumb, medium, large, original should be rejected. The code does not do
  so. On the body whose only variant is named \<open>huge\<close>: validation accepts; default-variant
  computation falls through to its last line and the record is stored with the mapping
  and with \<open>default_variant = original\<close>, which is not a key of it; the 201 response
  hands out the URLs \<open>/asset/A7/original\<close> and \<open>/asset/A7/huge\<close>; and every retrieval of
  the asset, with no selector, at \<open>huge\<close> or at \<open>original\<close>, is answered with the 404
  "No suitable variant found".
\<close>

theorem unrecognized_variant_name_registered:
  "truthy (is_image huge_body)
   \<and> map fst (the (variants huge_body)) = [''huge'']
   \<and> \<not> isValidVariantName ''huge''
   \<and> validateRegistrationBody huge_body = Inr \<lparr>valid = True, error = None\<rparr>
   \<and> fst (handleRegistration example_env ''A7'' huge_body now0)
       = JsonResponse 201
           [(''success'', Bool True),
            (''assetId'', Str ''A7''),
            (''cdnUrl'', Str (asset_url ''A7'')),
            (''storage_type'', Str ''r2''),
            (''defaultUrl'', Str (asset_url ''A7'' @ ''/original'')),
            (''variants'', Obj [(''huge'', Str (asset_url ''A7'' @ ''/huge''))])]
   \<and> map fst (the (variants
        (the (ASSET_MAP (snd (handleRegistration example_env ''A7'' huge_body now0)) ''A7''))))
       = [''huge'']
   \<and> default_variant
        (the (ASSET_MAP (snd (handleRegistration example_env ''A7'' huge_body now0)) ''A7''))
       = Some ''original''
   \<and> handleRetrieval (snd (handleRegistration example_env ''A7'' huge_body now0)) no_fetch
        ''A7'' []
       = JsonResponse 404 [(''error'', Str ''No suitable variant found''),
                           (''requested'', Str ''original'')]
   \<and> handleRetrieval (snd (handleRegistration example_env ''A7'' huge_body now0)) no_fetch
        ''A7'' ''huge''
       = JsonResponse 404 [(''error'', Str ''No suitable variant found''),
                           (''requested'', Str ''original'')]
   \<and> handleRetrieval (snd (handleRegistration example_env ''A7'' huge_body now0)) no_fetch
        ''A7'' ''original''
       = JsonResponse 404 [(''error'', Str ''No suitable variant found''),
                           (''requested'', Str ''original'')]"
proof -
  let ?vs = "[(''huge'', r2_variant ''a7/huge.jpg'' 9000 7557 9000000)]"
  let ?fresh = "build_metadata huge_body now0"
  let ?m = "?fresh\<lparr>default_variant := Some ''original''\<rparr>"
  let ?env = "snd (handleRegistration example_env ''A7'' huge_body now0)"
  have img: "truthy (is_image huge_body)" by (simp add: example_defs)
  have vs: "variants huge_body = Some ?vs" by (simp add: example_defs)
  have name: "\<not> isValidVariantName ''huge''"
    by (simp add: isValidVariantName_def VARIANT_NAMES_def)
  have acc: "validateRegistrationBody huge_body = Inr accepted"
    by (simp add: example_defs validateRegistrationBody_def validateVariant_def js_or_def
          js_and_def accepted_def)
  have hv: "hasVariants ?fresh" using img vs by (simp add: hasVariants_build_metadata)
  have fields: "variants ?fresh = Some ?vs" "default_variant ?fresh = None"
      "storage_type ?fresh = ''r2''"
    by (simp_all add: build_metadata_def example_defs)
  have d: "calculateDefaultVariant ?fresh = ''original''"
    by (simp add: calculateDefaultVariant_def fields entry_def)
  have wd: "with_default ?fresh = ?m"
    using hv by (simp add: with_default_def fields d)
  have hvm: "hasVariants ?m" using hv by (simp add: hasVariants_def)
  have response: "fst (handleRegistration example_env ''A7'' huge_body now0)
       = JsonResponse 201
           [(''success'', Bool True),
            (''assetId'', Str ''A7''),
            (''cdnUrl'', Str (asset_url ''A7'')),
            (''storage_type'', Str ''r2''),
            (''defaultUrl'', Str (asset_url ''A7'' @ ''/original'')),
            (''variants'', Obj [(''huge'', Str (asset_url ''A7'' @ ''/huge''))])]"
    using acc hvm
    by (simp add: handleRegistration_def accepted_def wd Let_def fields buildVariantUrls_def)
  have stored: "ASSET_MAP ?env ''A7'' = Some ?m"
    by (simp add: handleRegistration_accepted[OF acc] wd)
  have tokens: "firstPart [] = []" "firstPart ''huge'' = ''huge''"
      "firstPart ''original'' = ''original''"
    by (simp_all add: firstPart_def)
  have recognized: "\<not> isValidVariantName []" "isValidVariantName ''original''"
    by (simp_all add: isValidVariantName_def VARIANT_NAMES_def)
  have dm: "calculateDefaultVariant ?m = ''original''"
    by (simp add: calculateDefaultVariant_def)
  have chain: "getVariantToServe ?m ''original'' = Inr None"
    by (simp add: getVariantToServe_def fallbackChains_def fields entry_def)
  have not_found: "handleRetrieval ?env no_fetch ''A7'' [] =
        JsonResponse 404 [(''error'', Str ''No suitable variant found''),
                          (''requested'', Str ''original'')]"
      "handleRetrieval ?env no_fetch ''A7'' ''huge'' =
        JsonResponse 404 [(''error'', Str ''No suitable variant found''),
                          (''requested'', Str ''original'')]"
      "handleRetrieval ?env no_fetch ''A7'' ''original'' =
        JsonResponse 404 [(''error'', Str ''No suitable variant found''),
                          (''requested'', Str ''original'')]"
    using stored hvm name recognized dm chain
    by (simp_all add: handleRetrieval_def tokens)
  show ?thesis
    using img vs name acc response stored not_found
    by (simp add: accepted_def fields)
qed

section \<open>Registration followed by retrieval\<close>

text \<open>
  Claim C8. Round trip: register an accepted body with \<open>is_image\<close> true, a variants
  mapping and no explicit \<open>default_variant\<close>, then retrieve the asset with no variant
  selector (no path, or a path whose first token is not a variant name). Let \<open>d\<close> be the
  result of default-variant computation on the record as built from the body. Then the
  stored \<open>default_variant\<close> is \<open>d\<close>, default-variant computation on the stored record
  gives \<open>d\<close> again, and retrieval serves the entry that the mapping has under \<open>d\<close>,
  reporting \<open>d\<close> as the variant served; should the mapping have no entry under \<open>d\<close>,
  retrieval is the 404 that names \<open>d\<close>.
\<close>

theorem default_round_trip:
  assumes "validateRegistrationBody body = Inr accepted"
    and "truthy (is_image body)" and "variants body = Some vs"
    and "\<not> truthy_str (default_variant body)"
    and "\<not> isValidVariantName (firstPart trailingPath)"
  shows "\<exists>m. ASSET_MAP (snd (handleRegistration env assetId body now)) assetId = Some m
          \<and> default_variant m = Some (calculateDefaultVariant (build_metadata body now))
          \<and> calculateDefaultVariant m = calculateDefaultVariant (build_metadata body now)
          \<and> handleRetrieval (snd (handleRegistration env assetId body now)) fetch assetId
               trailingPath =
              (case map_of vs (calculateDefaultVariant (build_metadata body now)) of
                 Some v \<Rightarrow>
                   serve_variant (snd (handleRegistration env assetId body now)) fetch assetId m v
                     (calculateDefaultVariant (build_metadata body now))
               | None \<Rightarrow>
                   JsonResponse 404
                     [(''error'', Str ''No suitable variant found''),
                      (''requested'', Str (calculateDefaultVariant (build_metadata body now)))])"
proof -
  let ?fresh = "build_metadata body now"
  let ?d = "calculateDefaultVariant ?fresh"
  let ?m = "?fresh\<lparr>default_variant := Some ?d\<rparr>"
  let ?env = "snd (handleRegistration env assetId body now)"
  from accepted_iff[OF assms(2,3)] assms(1)
  have ne: "vs \<noteq> []" and ok: "\<forall>v \<in> snd ` set vs. truthy v"
    by (auto intro: variant_ok_truthy)
  have hv: "hasVariants ?fresh" using assms(2,3) ne by (simp add: hasVariants_build_metadata)
  have vs0: "variants ?fresh = Some vs" using assms(3) by (simp add: build_metadata_def)
  have d0: "\<not> truthy_str (default_variant ?fresh)"
    using assms(4) by (simp add: build_metadata_def)
  have wd: "with_default ?fresh = ?m" using hv d0 by (simp add: with_default_def)
  have stored: "ASSET_MAP ?env assetId = Some ?m"
    by (simp add: handleRegistration_accepted[OF assms(1)] wd)
  note nd = calculateDefaultVariant_no_default[OF vs0 ok d0]
  have name: "?d \<in> set VARIANT_NAMES" by (rule nd(1))
  have recompute: "calculateDefaultVariant ?m = ?d"
    using VARIANT_NAMES_nonempty[OF name] by (simp add: calculateDefaultVariant_def)
  have hvm: "hasVariants ?m" using hv by (simp add: hasVariants_def)
  have vsm: "variants ?m = Some vs" using vs0 by simp
  obtain rest where chain: "fallbackChains ?d = Some (?d # rest)"
    using fallbackChains_head[OF name] by blast
  have serve: "handleRetrieval ?env fetch assetId trailingPath =
      (case walk_chain vs (?d # rest) of
         None \<Rightarrow> JsonResponse 404 [(''error'', Str ''No suitable variant found''),
                                     (''requested'', Str ?d)]
       | Some (variant, actualVariant) \<Rightarrow>
           serve_variant ?env fetch assetId ?m variant actualVariant)"
    using stored hvm assms(5) recompute vsm chain
    by (simp add: handleRetrieval_def getVariantToServe_def del: walk_chain.simps
             split: option.splits)
  have result: "handleRetrieval ?env fetch assetId trailingPath =
      (case map_of vs ?d of
         Some v \<Rightarrow> serve_variant ?env fetch assetId ?m v ?d
       | None \<Rightarrow> JsonResponse 404 [(''error'', Str ''No suitable variant found''),
                                     (''requested'', Str ?d)])"
  proof (cases "?d \<in> fst ` set vs")
    case True
    then have t: "truthy (entry vs ?d)" using entry_truthy_iff[OF ok] by simp
    from True obtain v where v: "map_of vs ?d = Some v"
      by (cases "map_of vs ?d") (auto simp: map_of_eq_None_iff)
    then have "entry vs ?d = v" by (simp add: entry_def)
    with serve walk_chain_head[OF t, of rest] v show ?thesis by simp
  next
    case False
    from nd(3)[OF False] have orig: "?d = ''original''" by simp
    with chain have "rest = []" by (simp add: fallbackChains_def)
    moreover from False have "\<not> truthy (entry vs ?d)" using entry_truthy_iff[OF ok] by simp
    moreover from False have "map_of vs ?d = None" by (simp add: map_of_eq_None_iff)
    ultimately show ?thesis using serve by (simp add: Let_def)
  qed
  show ?thesis
    using stored recompute result by auto
qed

text \<open>
  Witness for C8: asset A1 is registered and then retrieved at \<open>/asset/A1\<close>; the default
  computed for it is \<open>medium\<close>, and the response streams the object of the medium
  variant and reports \<open>medium\<close>.
\<close>

theorem default_round_trip_witness:
  "validateRegistrationBody A1_body = Inr accepted
   \<and> truthy (is_image A1_body)
   \<and> \<not> truthy_str (default_variant A1_body)
   \<and> \<not> isValidVariantName (firstPart [])
   \<and> calculateDefaultVariant (build_metadata A1_body now0) = ''medium''
   \<and> handleRetrieval (snd (handleRegistration example_env ''A1'' A1_body now0)) no_fetch ''A1'' []
       = StreamResponse ''medium bytes''
           \<lparr>Content_Type = Str ''image/jpeg'',
            Cache_Control = CACHE_CONTROL,
            X_Asset_Id = ''A1'',
            Content_Length = Some (Num 300000),
            X_Variant = Some ''medium'',
            X_Variant_Dimensions = Some (Num 1288, Num 1082),
            X_Original_Dimensions = None\<rparr>"
proof -
  let ?env = "snd (handleRegistration example_env ''A1'' A1_body now0)"
  have h1: "validateRegistrationBody A1_body = Inr accepted"
    by (simp add: example_defs validateRegistrationBody_def validateVariant_def js_or_def
          js_and_def accepted_def)
  have h2: "truthy (is_image A1_body)" by (simp add: example_defs)
  have h3: "variants A1_body = Some A1_variants" by (simp add: example_defs)
  have h4: "\<not> truthy_str (default_variant A1_body)" by (simp add: example_defs)
  have h5: "\<not> isValidVariantName (firstPart [])"
    by (simp add: isValidVariantName_def firstPart_def VARIANT_NAMES_def)
  have d: "calculateDefaultVariant (build_metadata A1_body now0) = ''medium''"
    by (simp add: example_defs build_metadata_def calculateDefaultVariant_def entry_def)
  have v: "map_of A1_variants ''medium'' = Some (r2_variant ''a1/medium.jpg'' 1288 1082 300000)"
    by (simp add: A1_variants_def)
  have archive: "ARKE_ARCHIVE ?env (Str ''a1/medium.jpg'')
      = Some \<lparr>r2_body = ''medium bytes'', r2_contentType = Str ''image/jpeg'',
               r2_size = 300000\<rparr>"
    by (simp add: handleRegistration_accepted[OF h1]) (simp add: example_env_def)
  from default_round_trip[OF h1 h2 h3 h4 h5, of example_env "''A1''" now0 no_fetch]
  obtain m where m: "ASSET_MAP ?env ''A1'' = Some m"
    and r: "handleRetrieval ?env no_fetch ''A1'' [] =
        serve_variant ?env no_fetch ''A1'' m (r2_variant ''a1/medium.jpg'' 1288 1082 300000)
          ''medium''"
    by (auto simp: d v)
  from m have "m = with_default (build_metadata A1_body now0)"
    by (simp add: handleRegistration_accepted[OF h1])
  then have fields: "content_type m = Undefined" "original_height m = None"
    by (simp_all add: with_default_def build_metadata_def example_defs)
  have "serve_variant ?env no_fetch ''A1'' m (r2_variant ''a1/medium.jpg'' 1288 1082 300000)
          ''medium''
      = StreamResponse ''medium bytes''
           \<lparr>Content_Type = Str ''image/jpeg'',
            Cache_Control = CACHE_CONTROL,
            X_Asset_Id = ''A1'',
            Content_Length = Some (Num 300000),
            X_Variant = Some ''medium'',
            X_Variant_Dimensions = Some (Num 1288, Num 1082),
            X_Original_Dimensions = None\<rparr>"
    by (simp add: serve_variant_def getVariantStorage_def r2_variant_def archive
          buildAssetHeaders_def js_or_def fields)
  with r h1 h2 h4 h5 d show ?thesis by simp
qed

section \<open>Records that are not images\<close>

text \<open>
  Claim C10. For a body and for a stored record whose \<open>is_image\<close> is false or absent, a
  variants mapping is not consulted. Validation and the registration response are the
  same whatever mapping the body carries (so entries are not inspected and a malformed
  entry rejects nothing), and the record that registration builds is not variant-bearing.
  At retrieval the stored record is scalar: a recognized variant token gives the 400
  error, and any other path is answered by serving the primary location, exactly as for
  the record without its variants mapping.
\<close>

theorem non_image_ignores_variants:
  assumes "\<not> truthy (is_image body)"
    and "ASSET_MAP env assetId = Some m" and "\<not> truthy (is_image m)"
  shows "validateRegistrationBody (body\<lparr>variants := vs\<rparr>) = validateRegistrationBody body
       \<and> fst (handleRegistration env assetId (body\<lparr>variants := vs\<rparr>) now)
           = fst (handleRegistration env assetId body now)
       \<and> \<not> hasVariants (with_default (build_metadata body now))
       \<and> handleRetrieval env fetch assetId trailingPath =
           (if isValidVariantName (firstPart trailingPath)
            then JsonResponse 400
                   [(''error'', Str ''Variants not available for this asset type''),
                    (''assetId'', Str assetId)]
            else serve_original env fetch assetId (m\<lparr>variants := None\<rparr>))"
proof (intro conjI)
  show v: "validateRegistrationBody (body\<lparr>variants := vs\<rparr>) = validateRegistrationBody body"
    using assms(1) by (simp add: validateRegistrationBody_def)
  have scalar: "\<And>b. \<not> truthy (is_image b) \<Longrightarrow> \<not> hasVariants (with_default (build_metadata b now))"
    by (simp add: hasVariants_with_default hasVariants_build_metadata)
  have st: "\<And>b. storage_type (with_default (build_metadata b now))
      = (if truthy (url b) then ''url'' else ''r2'')"
    by (simp add: with_default_def build_metadata_def)
  show "fst (handleRegistration env assetId (body\<lparr>variants := vs\<rparr>) now)
      = fst (handleRegistration env assetId body now)"
    using assms(1) scalar[of body] scalar[of "body\<lparr>variants := vs\<rparr>"]
    by (simp add: handleRegistration_def v st Let_def split: sum.splits)
  show "\<not> hasVariants (with_default (build_metadata body now))"
    using assms(1) by (rule scalar)
  have "\<not> hasVariants m" using assms(3) by (simp add: hasVariants_def)
  moreover have "serve_original env fetch assetId (m\<lparr>variants := None\<rparr>)
      = serve_original env fetch assetId m"
    by (simp add: serve_original_def Let_def split: option.splits)
  ultimately show "handleRetrieval env fetch assetId trailingPath =
           (if isValidVariantName (firstPart trailingPath)
            then JsonResponse 400
                   [(''error'', Str ''Variants not available for this asset type''),
                    (''assetId'', Str assetId)]
            else serve_original env fetch assetId (m\<lparr>variants := None\<rparr>))"
    using assms(2) by (simp add: handleRetrieval_def)
qed

text \<open>
  Witness for C10: the document D1 comes with a variants mapping that has a \<open>null\<close>
  entry. It is accepted; retrieved at \<open>/asset/D1/report.pdf\<close> it is streamed from its
  own key, with no variant header.
\<close>

theorem non_image_ignores_variants_witness:
  "\<not> truthy (is_image document_body)
   \<and> \<not> truthy (is_image (build_metadata document_body now0))
   \<and> validateRegistrationBody document_body = Inr accepted
   \<and> \<not> isValidVariantName (firstPart ''report.pdf'')
   \<and> handleRetrieval (snd (handleRegistration example_env ''D1'' document_body now0)) no_fetch
        ''D1'' ''report.pdf''
       = StreamResponse ''report bytes''
           \<lparr>Content_Type = Str ''application/pdf'',
            Cache_Control = CACHE_CONTROL,
            X_Asset_Id = ''D1'',
            Content_Length = Some (Num 52000),
            X_Variant = None,
            X_Variant_Dimensions = None,
            X_Original_Dimensions = None\<rparr>"
proof -
  let ?env = "snd (handleRegistration example_env ''D1'' document_body now0)"
  let ?m = "build_metadata document_body now0"
  have h1: "\<not> truthy (is_image document_body)" by (simp add: example_defs)
  have h3: "\<not> truthy (is_image ?m)"
    by (simp add: build_metadata_def js_or_def example_defs)
  have novar: "\<not> hasVariants ?m" using h3 by (simp add: hasVariants_def)
  have path: "\<not> isValidVariantName (firstPart ''report.pdf'')"
    by (simp add: isValidVariantName_def firstPart_def VARIANT_NAMES_def)
  have acc: "validateRegistrationBody document_body = Inr accepted"
    by (simp add: validateRegistrationBody_def accepted_def example_defs)
  have h2: "ASSET_MAP ?env ''D1'' = Some ?m"
    using novar by (simp add: handleRegistration_accepted[OF acc] with_default_def)
  have archive: "ARKE_ARCHIVE ?env (Str ''d1/report.pdf'')
      = Some \<lparr>r2_body = ''report bytes'', r2_contentType = Str ''application/pdf'',
               r2_size = 52000\<rparr>"
    by (simp add: handleRegistration_accepted[OF acc]) (simp add: example_env_def)
  have fields: "storage_type ?m = ''r2''" "r2_key ?m = Str ''d1/report.pdf''"
      "content_type ?m = Undefined" "size_bytes ?m = Undefined"
    by (simp_all add: build_metadata_def example_defs)
  have "serve_original ?env no_fetch ''D1'' (?m\<lparr>variants := None\<rparr>)
      = StreamResponse ''report bytes''
           \<lparr>Content_Type = Str ''application/pdf'',
            Cache_Control = CACHE_CONTROL,
            X_Asset_Id = ''D1'',
            Content_Length = Some (Num 52000),
            X_Variant = None,
            X_Variant_Dimensions = None,
            X_Original_Dimensions = None\<rparr>"
    by (simp add: serve_original_def archive fields buildAssetHeaders_def js_or_def)
  with non_image_ignores_variants[OF h1 h2 h3, of None now0 no_fetch "''report.pdf''"]
    h1 h3 acc path
  show ?thesis by simp
qed

end
